theory Spec2Isabelle
  imports
    Complex_Main
    "HOL-Library.Char_ord"
    "HOL-Library.List_Lexorder"
    "HOL-Library.Product_Lexorder"
begin

section \<open>Values\<close>

text \<open>
  The pipeline of \<^verbatim>\<open>main2.py\<close> works on pandas data frames of floating-point
  cells. A cell is modelled as an optional real: \<open>None\<close> is the missing value (NaN),
  \<open>Some x\<close> a number. Rounding of floating-point arithmetic is not modelled: the
  arithmetic is that of the reals.
\<close>

type_synonym val = "real option"

datatype py_error = ValueError | KeyError

text \<open>Cell arithmetic: a missing operand makes the result missing.\<close>

fun vsub :: "val \<Rightarrow> val \<Rightarrow> val" where
  "vsub (Some a) (Some b) = Some (a - b)"
| "vsub _ _ = None"

fun vadd :: "val \<Rightarrow> val \<Rightarrow> val" where
  "vadd (Some a) (Some b) = Some (a + b)"
| "vadd _ _ = None"

text \<open>The numbers of a column, missing cells skipped, as every pandas reduction does.\<close>

fun present :: "val list \<Rightarrow> real list" where
  "present [] = []"
| "present (None # vs) = present vs"
| "present (Some x # vs) = x # present vs"

text \<open>\<^verbatim>\<open>mean\<close>: the mean of the present cells, missing when there is none.\<close>

definition mean :: "val list \<Rightarrow> val" where
  "mean vs = (let xs = present vs in
     if xs = [] then None else Some (sum_list xs / real (length xs)))"

text \<open>\<^verbatim>\<open>sum\<close>: the sum of the present cells (0 when there is none).\<close>

definition vsum :: "val list \<Rightarrow> val" where
  "vsum vs = Some (sum_list (present vs))"

text \<open>\<^verbatim>\<open>count\<close>: the number of present cells.\<close>

definition vcount :: "val list \<Rightarrow> val" where
  "vcount vs = Some (real (length (present vs)))"

section \<open>Score blending and rounding (\<^verbatim>\<open>blend_common_score\<close>)\<close>

text \<open>Python's \<^verbatim>\<open>%\<close> and \<^verbatim>\<open>//\<close> on floats, for a positive divisor.\<close>

definition py_mod :: "real \<Rightarrow> real \<Rightarrow> real" where
  "py_mod x m = x - m * of_int \<lfloor>x / m\<rfloor>"

definition py_floordiv :: "real \<Rightarrow> real \<Rightarrow> real" where
  "py_floordiv x m = of_int \<lfloor>x / m\<rfloor>"

text \<open>\<^verbatim>\<open>numpy.argmin\<close>: the index of the first occurrence of the least element.\<close>

fun argmin_from :: "nat \<Rightarrow> real \<Rightarrow> nat \<Rightarrow> real list \<Rightarrow> nat" where
  "argmin_from best bv i [] = best"
| "argmin_from best bv i (x # xs) =
     (if x < bv then argmin_from i x (Suc i) xs else argmin_from best bv (Suc i) xs)"

definition argmin :: "real list \<Rightarrow> nat" where
  "argmin xs = (case xs of [] \<Rightarrow> 0 | x # ys \<Rightarrow> argmin_from 0 x 1 ys)"

definition multiples :: "real list" where
  "multiples = [3, 7]"

text \<open>
  The rounding step, line 200:
  \<^verbatim>\<open>multiples[np.abs(multiples - (score % 10)).argmin()] + 10 * (score // 10)\<close>
\<close>

definition snap :: "real \<Rightarrow> real" where
  "snap score =
     multiples ! argmin (map (\<lambda>m. \<bar>m - py_mod score 10\<bar>) multiples)
       + 10 * py_floordiv score 10"

text \<open>
  \<^verbatim>\<open>team_common_scores\<close> is a series indexed by team: a map from team to its most
  common score. \<^verbatim>\<open>team in team_common_scores\<close> tests the index.
\<close>

definition blend_common_score ::
  "(string \<rightharpoonup> real) \<Rightarrow> real \<Rightarrow> real \<Rightarrow> string \<Rightarrow> real \<Rightarrow> real" where
  "blend_common_score team_common_scores blend_common add_points team score =
     (let score1 = (case team_common_scores team of
                      Some common \<Rightarrow> score * (1 - blend_common) + common * blend_common
                    | None \<Rightarrow> score);
          score2 = score1 + add_points
      in snap score2)"

text \<open>The defaults of \<^verbatim>\<open>make_prediction_df\<close>.\<close>

definition default_blend_common :: real where
  "default_blend_common = 0.3"

definition default_add_points :: real where
  "default_add_points = 3"

section \<open>Data model\<close>

text \<open>The twelve statistics of \<^verbatim>\<open>base_feature_cols\<close>, in the order of the source.\<close>

datatype col =
    Plays | Total_epa | Avg_epa | Yards | Tds | Passes | Rushes
  | Turnovers | Fumbles | Third_down_pct | Fourth_down_pct | Red_zone_plays

definition base_feature_cols :: "col list" where
  "base_feature_cols =
     [Plays, Total_epa, Avg_epa, Yards, Tds, Passes, Rushes,
      Turnovers, Fumbles, Third_down_pct, Fourth_down_pct, Red_zone_plays]"

text \<open>
  A play of the play-by-play feed, with the columns \<^verbatim>\<open>build_game_level_df\<close> reads.
  Every cell can be missing.
\<close>

record play_event =
  play_game_id :: "string option"
  play_season :: "int option"
  play_week :: "int option"
  play_posteam :: "string option"
  play_defteam :: "string option"
  down :: val
  first_down :: val
  yardline_100 :: val
  pass_attempt :: val
  rush_attempt :: val
  epa :: val
  yards_gained :: val
  touchdown :: val
  interception :: val
  fumble_lost :: val

text \<open>A row of the game-level frame: the five grouping columns and the twelve statistics.\<close>

record game_team_stat =
  game_id :: string
  season :: int
  week :: int
  posteam :: string
  defteam :: string
  stats :: "col \<Rightarrow> val"

text \<open>After the merge with the schedule's scores (line 67).\<close>

record merged_row = game_team_stat +
  team :: string
  opp :: string
  score :: val

text \<open>After \<^verbatim>\<open>add_matchup_adjusted_features\<close>: one more column per statistic.\<close>

record adjusted_row = merged_row +
  vs_opp :: "col \<Rightarrow> val"

section \<open>Game aggregator (\<^verbatim>\<open>build_game_level_df\<close>)\<close>

text \<open>The indicator columns of lines 22 to 24; a comparison with a missing cell is false.\<close>

definition third_down_converted :: "play_event \<Rightarrow> val" where
  "third_down_converted p = (if down p = Some 3 \<and> first_down p = Some 1 then Some 1 else Some 0)"

definition fourth_down_converted :: "play_event \<Rightarrow> val" where
  "fourth_down_converted p = (if down p = Some 4 \<and> first_down p = Some 1 then Some 1 else Some 0)"

definition red_zone_play :: "play_event \<Rightarrow> val" where
  "red_zone_play p =
     (case yardline_100 p of Some y \<Rightarrow> if y \<le> 20 then Some 1 else Some 0 | None \<Rightarrow> Some 0)"

text \<open>Line 32: \<^verbatim>\<open>dropna(subset=["posteam", "defteam"])\<close>.\<close>

definition dropna_teams :: "play_event list \<Rightarrow> play_event list" where
  "dropna_teams pbp = filter (\<lambda>p. play_posteam p \<noteq> None \<and> play_defteam p \<noteq> None) pbp"

type_synonym group_key = "string \<times> int \<times> int \<times> string \<times> string"

text \<open>
  The key of a play in \<^verbatim>\<open>groupby(["game_id", "season", "week", "posteam", "defteam"])\<close>.
  A play with a missing key column belongs to no group (pandas' default \<^verbatim>\<open>dropna=True\<close>).
\<close>

definition key_of :: "play_event \<Rightarrow> group_key option" where
  "key_of p =
     (case (play_game_id p, play_season p, play_week p, play_posteam p, play_defteam p) of
        (Some g, Some s, Some w, Some a, Some b) \<Rightarrow> Some (g, s, w, a, b)
      | _ \<Rightarrow> None)"

text \<open>The aggregations of lines 37 to 48.\<close>

fun agg :: "play_event list \<Rightarrow> col \<Rightarrow> val" where
  "agg ps Plays = vcount (map epa ps)"
| "agg ps Total_epa = vsum (map epa ps)"
| "agg ps Avg_epa = mean (map epa ps)"
| "agg ps Yards = vsum (map yards_gained ps)"
| "agg ps Tds = vsum (map touchdown ps)"
| "agg ps Passes = vsum (map pass_attempt ps)"
| "agg ps Rushes = vsum (map rush_attempt ps)"
| "agg ps Turnovers = vsum (map interception ps)"
| "agg ps Fumbles = vsum (map fumble_lost ps)"
| "agg ps Third_down_pct = mean (map third_down_converted ps)"
| "agg ps Fourth_down_pct = mean (map fourth_down_converted ps)"
| "agg ps Red_zone_plays = vsum (map red_zone_play ps)"

definition group_row :: "group_key \<Rightarrow> play_event list \<Rightarrow> game_team_stat" where
  "group_row k ps =
     (case k of (g, s, w, a, b) \<Rightarrow>
        \<lparr>game_id = g, season = s, week = w, posteam = a, defteam = b, stats = agg ps\<rparr>)"

text \<open>The keys of the groups, sorted (pandas' default \<^verbatim>\<open>sort=True\<close>).\<close>

definition group_keys :: "play_event list \<Rightarrow> group_key list" where
  "group_keys df = sort (remdups (List.map_filter key_of df))"

definition build_game_level_df :: "play_event list \<Rightarrow> game_team_stat list" where
  "build_game_level_df pbp =
     (let df = dropna_teams pbp
      in map (\<lambda>k. group_row k (filter (\<lambda>p. key_of p = Some k) df)) (group_keys df))"

section \<open>Rolling statistics (\<^verbatim>\<open>compute_rolling_team_stats\<close>)\<close>

text \<open>
  pandas' \<^verbatim>\<open>rolling(window, min_periods).mean()\<close> on one column: at position \<open>i\<close> the
  window holds the cells at positions \<open>i + 1 - window\<close> (or 0) to \<open>i\<close>; the result is
  their mean when at least \<open>min_periods\<close> of them are present, and missing otherwise.
\<close>

definition rolling_mean :: "nat \<Rightarrow> nat \<Rightarrow> val list \<Rightarrow> val list" where
  "rolling_mean window min_periods xs =
     map (\<lambda>i. let w = drop (Suc i - window) (take (Suc i) xs)
              in if min_periods \<le> length (present w) then mean w else None)
       [0..<length xs]"

text \<open>Line 85: the columns of \<^verbatim>\<open>base_feature_cols\<close> of one team's frame are replaced.\<close>

definition rolling_cols :: "nat \<Rightarrow> merged_row list \<Rightarrow> merged_row list" where
  "rolling_cols window team_df =
     map (\<lambda>i. (team_df ! i)\<lparr>stats :=
                (\<lambda>c. if c \<in> set base_feature_cols
                      then rolling_mean window 1 (map (\<lambda>r. stats r c) team_df) ! i
                      else stats (team_df ! i) c)\<rparr>)
       [0..<length team_df]"

text \<open>\<^verbatim>\<open>unique()\<close>: the distinct values in the order of their first appearance.\<close>

fun unique :: "'a list \<Rightarrow> 'a list" where
  "unique [] = []"
| "unique (x # xs) = x # unique (filter (\<lambda>y. y \<noteq> x) xs)"

text \<open>
  The whole function. \<^verbatim>\<open>sort_values\<close> on several columns is a stable sort.
  \<^verbatim>\<open>pd.concat\<close> of no frame raises ValueError, and so does a rolling window smaller
  than \<^verbatim>\<open>min_periods\<close>.
\<close>

definition sort_values :: "merged_row list \<Rightarrow> merged_row list" where
  "sort_values df = sort_key (\<lambda>r. (team r, season r, week r)) df"

definition compute_rolling_team_stats :: "merged_row list \<Rightarrow> int \<Rightarrow> py_error + merged_row list" where
  "compute_rolling_team_stats df n_seasons =
     (let sorted_df = sort_values df;
          teams = unique (map team sorted_df)
      in if teams = [] then Inl ValueError
         else if n_seasons * 17 < 1 then Inl ValueError
         else Inr (concat (map (\<lambda>t. rolling_cols (nat (n_seasons * 17))
                                   (filter (\<lambda>r. team r = t) sorted_df)) teams)))"

section \<open>Opponent adjustment (\<^verbatim>\<open>add_matchup_adjusted_features\<close>)\<close>

text \<open>
  \<^verbatim>\<open>groupby('team')[base_feature_cols].mean()\<close>: one row per team, in the order of
  the team names, holding the mean of each statistic over the team's rows.
\<close>

definition groupby_team_mean :: "merged_row list \<Rightarrow> (string \<times> (col \<Rightarrow> val)) list" where
  "groupby_team_mean rows =
     map (\<lambda>t. (t, \<lambda>c. mean (map (\<lambda>r. stats r c) (filter (\<lambda>r. team r = t) rows))))
       (sort (remdups (map team rows)))"

text \<open>\<^verbatim>\<open>df[base_feature_cols].mean()\<close>: the mean of each column over the whole frame.\<close>

definition column_means :: "merged_row list \<Rightarrow> col \<Rightarrow> val" where
  "column_means df c = mean (map (\<lambda>r. stats r c) df)"

text \<open>Line 101: the rows of the opponent in a strictly earlier season.\<close>

definition opp_rows :: "merged_row list \<Rightarrow> merged_row \<Rightarrow> merged_row list" where
  "opp_rows df row = filter (\<lambda>r. team r = opp row \<and> season r < season row) df"

text \<open>Lines 100 to 105: the loop body up to \<^verbatim>\<open>team_stats_vs_opp\<close>.\<close>

definition team_stats_vs_opp :: "merged_row list \<Rightarrow> merged_row \<Rightarrow> col \<Rightarrow> val" where
  "team_stats_vs_opp df row =
     (let team_stats = stats row;
          opp_stats = groupby_team_mean (opp_rows df row)
      in if opp_stats \<noteq> []
         then (\<lambda>c. vsub (team_stats c) (snd (last opp_stats) c))
         else (\<lambda>c. vsub (team_stats c) (column_means df c)))"

definition add_matchup_adjusted_features :: "merged_row list \<Rightarrow> adjusted_row list" where
  "add_matchup_adjusted_features df =
     map (\<lambda>row. merged_row.extend row (adjusted_row.fields (team_stats_vs_opp df row))) df"

section \<open>Prediction rows (\<^verbatim>\<open>make_prediction_df\<close>)\<close>

record schedule_row =
  sched_game_id :: string
  sched_home_team :: string
  sched_away_team :: string

record pred_entry =
  entry_game_id :: string
  entry_team :: string
  entry_opp :: string
  is_home :: bool
  features :: "col \<Rightarrow> val"
  features_vs_opp :: "col \<Rightarrow> val"

record pred_row = pred_entry +
  predicted_score :: real

definition HOME_FIELD_ADV :: real where
  "HOME_FIELD_ADV = 2.5"

text \<open>
  Lines 167 to 174. \<^verbatim>\<open>team_baselines\<close> is a frame indexed by team, a map from team to
  its row; \<^verbatim>\<open>games_recent\<close> is the frame the baselines were computed from.
\<close>

definition base_feature_assignment ::
  "(string \<rightharpoonup> (col \<Rightarrow> val)) \<Rightarrow> merged_row list \<Rightarrow> string \<Rightarrow> string \<Rightarrow> col \<Rightarrow> val" where
  "base_feature_assignment team_baselines games_recent tm op =
     (case team_baselines tm of
        Some b \<Rightarrow>
          (\<lambda>c. let baseline = b c;
                   opp_adj = (case team_baselines op of Some ob \<Rightarrow> ob c | None \<Rightarrow> Some 0)
               in vsub baseline opp_adj)
      | None \<Rightarrow> (\<lambda>c. mean (map (\<lambda>r. stats r c) games_recent)))"

text \<open>Lines 177 and 178.\<close>

definition home_field_advantage :: "bool \<Rightarrow> (col \<Rightarrow> val) \<Rightarrow> col \<Rightarrow> val" where
  "home_field_advantage home entry =
     (if home then entry(Total_epa := vadd (entry Total_epa) (Some HOME_FIELD_ADV)) else entry)"

text \<open>The body of the inner loop, lines 164 to 183.\<close>

definition make_entry ::
  "(string \<rightharpoonup> (col \<Rightarrow> val)) \<Rightarrow> merged_row list \<Rightarrow> string \<Rightarrow> string \<Rightarrow> string \<Rightarrow> bool \<Rightarrow> pred_entry" where
  "make_entry team_baselines games_recent gid tm op home =
     \<lparr>entry_game_id = gid, entry_team = tm, entry_opp = op, is_home = home,
      features = home_field_advantage home (base_feature_assignment team_baselines games_recent tm op),
      features_vs_opp = (\<lambda>c. Some 0)\<rparr>"

text \<open>The two entries of a game: the home team first, then the away team (line 163).\<close>

definition game_entries ::
  "(string \<rightharpoonup> (col \<Rightarrow> val)) \<Rightarrow> merged_row list \<Rightarrow> schedule_row \<Rightarrow> pred_entry list" where
  "game_entries team_baselines games_recent row =
     [make_entry team_baselines games_recent (sched_game_id row)
        (sched_home_team row) (sched_away_team row) True,
      make_entry team_baselines games_recent (sched_game_id row)
        (sched_away_team row) (sched_home_team row) False]"

text \<open>
  The whole function. The regression model is a parameter: \<open>predict\<close> maps the feature
  columns of a row to its raw score. On an empty schedule the frame has no column and
  \<^verbatim>\<open>df_pred[feature_cols]\<close> raises KeyError.
\<close>

definition make_prediction_df ::
  "((col \<Rightarrow> val) \<Rightarrow> (col \<Rightarrow> val) \<Rightarrow> real) \<Rightarrow> (string \<rightharpoonup> real) \<Rightarrow>
   (string \<rightharpoonup> (col \<Rightarrow> val)) \<Rightarrow> merged_row list \<Rightarrow>
   schedule_row list \<Rightarrow> real \<Rightarrow> real \<Rightarrow> py_error + pred_row list" where
  "make_prediction_df predict team_common_scores team_baselines games_recent
       schedule blend_common add_points =
     (let preds = concat (map (game_entries team_baselines games_recent) schedule)
      in if preds = [] then Inl KeyError
         else Inr (map (\<lambda>e. pred_entry.extend e (pred_row.fields
                     (blend_common_score team_common_scores blend_common add_points
                        (entry_team e) (predict (features e) (features_vs_opp e))))) preds))"

section \<open>Game-level predictions (lines 214 to 222)\<close>

record game_pred =
  pred_game_id :: string
  home_team :: string
  home_pred_score :: real
  away_team :: string
  away_pred_score :: real

record final_pred = game_pred +
  projected_winner :: string

text \<open>The inner merge of the home rows with the away rows on \<^verbatim>\<open>game_id\<close>.\<close>

definition merge_home_away :: "pred_row list \<Rightarrow> game_pred list" where
  "merge_home_away pred_input =
     (let home_preds = filter is_home pred_input;
          away_preds = filter (\<lambda>p. \<not> is_home p) pred_input
      in concat (map (\<lambda>h. map (\<lambda>a.
           \<lparr>pred_game_id = entry_game_id h, home_team = entry_team h,
            home_pred_score = predicted_score h,
            away_team = entry_team a, away_pred_score = predicted_score a\<rparr>)
           (filter (\<lambda>a. entry_game_id a = entry_game_id h) away_preds)) home_preds))"

text \<open>Line 221: \<^verbatim>\<open>np.where(home_pred_score > away_pred_score, home_team, away_team)\<close>.\<close>

definition with_projected_winner :: "game_pred list \<Rightarrow> final_pred list" where
  "with_projected_winner gs =
     map (\<lambda>g. game_pred.extend g (final_pred.fields
           (if home_pred_score g > away_pred_score g then home_team g else away_team g))) gs"

definition final_preds :: "pred_row list \<Rightarrow> final_pred list" where
  "final_preds pred_input = with_projected_winner (merge_home_away pred_input)"

section \<open>Example data\<close>

text \<open>Small frames, used to run the definitions on concrete inputs.\<close>

definition const_stats :: "real \<Rightarrow> col \<Rightarrow> val" where
  "const_stats v = (\<lambda>c. Some v)"

definition ex_baselines :: "string \<rightharpoonup> (col \<Rightarrow> val)" where
  "ex_baselines = [''AA'' \<mapsto> const_stats 10, ''BB'' \<mapsto> const_stats 4]"

definition ex_game :: schedule_row where
  "ex_game = \<lparr>sched_game_id = ''2025_01_BB_AA'', sched_home_team = ''AA'', sched_away_team = ''BB''\<rparr>"

definition ex_pred_input :: "pred_row list" where
  "ex_pred_input =
     [\<lparr>entry_game_id = ''2025_01_BB_AA'', entry_team = ''AA'', entry_opp = ''BB'', is_home = True,
       features = const_stats 0, features_vs_opp = const_stats 0, predicted_score = 23\<rparr>,
      \<lparr>entry_game_id = ''2025_01_BB_AA'', entry_team = ''BB'', entry_opp = ''AA'', is_home = False,
       features = const_stats 0, features_vs_opp = const_stats 0, predicted_score = 23\<rparr>]"

definition ex_final :: final_pred where
  "ex_final = \<lparr>pred_game_id = ''2025_01_BB_AA'', home_team = ''AA'', home_pred_score = 23,
       away_team = ''BB'', away_pred_score = 23, projected_winner = ''BB''\<rparr>"

definition mk_row :: "string \<Rightarrow> string \<Rightarrow> int \<Rightarrow> int \<Rightarrow> real \<Rightarrow> merged_row" where
  "mk_row t o' s w v =
     \<lparr>game_id = ''g'', season = s, week = w, posteam = t, defteam = o',
      stats = const_stats v, team = t, opp = o', score = None\<rparr>"

definition ex_hist :: "merged_row list" where
  "ex_hist = [mk_row ''BB'' ''CC'' 2018 1 20, mk_row ''BB'' ''CC'' 2018 2 30,
              mk_row ''AA'' ''BB'' 2019 1 10]"

definition ex_hist_later :: "merged_row list" where
  "ex_hist_later = ex_hist @ [mk_row ''BB'' ''AA'' 2019 1 99]"

definition ex_first_season :: "merged_row list" where
  "ex_first_season = [mk_row ''AA'' ''BB'' 2018 1 10, mk_row ''BB'' ''AA'' 2018 1 20]"

definition ex_games :: "merged_row list" where
  "ex_games = [mk_row ''AA'' ''CC'' 2018 2 20, mk_row ''BB'' ''CC'' 2018 1 5,
               mk_row ''AA'' ''BB'' 2018 1 10]"

definition ex_rolled :: "merged_row list" where
  "ex_rolled = [mk_row ''AA'' ''BB'' 2018 1 10, mk_row ''AA'' ''CC'' 2018 2 15,
                mk_row ''BB'' ''CC'' 2018 1 5]"

definition mk_play :: "string \<Rightarrow> int \<Rightarrow> int \<Rightarrow> string \<Rightarrow> string \<Rightarrow> real \<Rightarrow> play_event" where
  "mk_play g s w a b e =
     \<lparr>play_game_id = Some g, play_season = Some s, play_week = Some w,
      play_posteam = Some a, play_defteam = Some b,
      down = Some 1, first_down = Some 0, yardline_100 = Some 75,
      pass_attempt = Some 1, rush_attempt = Some 0, epa = Some e, yards_gained = Some 5,
      touchdown = Some 0, interception = Some 0, fumble_lost = Some 0\<rparr>"

definition ex_plays :: "play_event list" where
  "ex_plays = [mk_play ''2023_01_BB_AA'' 2023 1 ''AA'' ''BB'' 0.5,
               mk_play ''2023_01_BB_AA'' 2023 1 ''BB'' ''AA'' (-0.25),
               mk_play ''2023_01_BB_AA'' 2023 1 ''AA'' ''BB'' 1.5]"

definition ex_plays_one_side :: "play_event list" where
  "ex_plays_one_side = [mk_play ''2023_01_BB_AA'' 2023 1 ''AA'' ''BB'' 0.5,
               (mk_play ''2023_01_BB_AA'' 2023 1 ''BB'' ''AA'' 0)\<lparr>play_posteam := None\<rparr>]"

section \<open>Properties of the rounding step\<close>

lemma snap_unfold:
  "snap s = (if py_mod s 10 \<le> 5 then 3 else 7) + 10 * py_floordiv s 10"
proof -
  have "\<bar>7 - py_mod s 10\<bar> < \<bar>3 - py_mod s 10\<bar> \<longleftrightarrow> \<not> py_mod s 10 \<le> 5"
    by linarith
  then show ?thesis
    by (simp add: snap_def multiples_def argmin_def)
qed

lemma decomposition_unique:
  fixes s r :: real and q :: int
  assumes "s = 10 * of_int q + r" "0 \<le> r" "r < 10"
  shows "\<lfloor>s / 10\<rfloor> = q"
proof -
  have "of_int q \<le> s / 10" "s / 10 < of_int q + 1"
    using assms by simp_all
  then show ?thesis by linarith
qed

lemma snap_decomposed:
  fixes s r :: real and q :: int
  assumes "s = 10 * of_int q + r" and "0 \<le> r" and "r < 10"
  shows "snap s = 10 * of_int q + (if r \<le> 5 then 3 else 7)"
proof -
  have q: "\<lfloor>s / 10\<rfloor> = q"
    using assms by (rule decomposition_unique)
  have "py_mod s 10 = s - 10 * of_int q"
    by (simp add: py_mod_def q)
  then have r: "py_mod s 10 = r"
    using assms(1) by simp
  show ?thesis
    by (simp add: snap_unfold r py_floordiv_def q)
qed

text \<open>
  C5. Writing the score as \<open>s = 10 * q + r\<close> with \<open>q\<close> an integer and \<open>r\<close> in
  \<open>[0, 10)\<close>, the rounding step returns \<open>10 * q\<close> plus the one of 3 and 7 that is
  closest to \<open>r\<close>, which is 3 when \<open>r = 5\<close>; the result is therefore a multiple of ten
  plus 3 or plus 7.
\<close>

theorem snap_closest_of_3_and_7:
  fixes s r :: real and q :: int
  assumes "s = 10 * of_int q + r" and "0 \<le> r" and "r < 10"
  shows "snap s = 10 * of_int q + (if r \<le> 5 then 3 else 7)
    \<and> \<bar>(snap s - 10 * of_int q) - r\<bar> \<le> \<bar>3 - r\<bar>
    \<and> \<bar>(snap s - 10 * of_int q) - r\<bar> \<le> \<bar>7 - r\<bar>
    \<and> (r = 5 \<longrightarrow> snap s = 10 * of_int q + 3)
    \<and> (snap s = 10 * of_int q + 3 \<or> snap s = 10 * of_int q + 7)"
proof -
  have eq: "snap s = 10 * of_int q + (if r \<le> 5 then 3 else 7)"
    using assms by (rule snap_decomposed)
  have near3: "\<bar>(snap s - 10 * of_int q) - r\<bar> \<le> \<bar>3 - r\<bar>"
    using assms(2,3) by (auto simp: eq abs_if)
  have near7: "\<bar>(snap s - 10 * of_int q) - r\<bar> \<le> \<bar>7 - r\<bar>"
    using assms(2,3) by (auto simp: eq abs_if)
  show ?thesis
    using eq near3 near7 by simp
qed

theorem snap_closest_of_3_and_7_witness:
  "(25::real) = 10 * of_int 2 + 5 \<and> snap 25 = 23 \<and> snap 38 = 37 \<and> snap (-1) = -3"
  using snap_closest_of_3_and_7 [of 25 2 5]
    snap_closest_of_3_and_7 [of 38 3 8]
    snap_closest_of_3_and_7 [of "-1" "-1" 9]
  by simp


section \<open>Properties of the score blender\<close>

text \<open>
  C6. For a team with no entry in the common-score table the blend is skipped: the result
  is the rounding step applied to the raw score plus the additive constant, which is 3 by
  default.
\<close>

theorem blend_skipped_without_common_score:
  assumes "team_common_scores t = None"
  shows "blend_common_score team_common_scores blend_common add_points t x = snap (x + add_points)
    \<and> blend_common_score team_common_scores default_blend_common default_add_points t x = snap (x + 3)"
  using assms by (simp add: blend_common_score_def default_add_points_def)

theorem blend_skipped_without_common_score_witness:
  "[''AA'' \<mapsto> 24] ''ZZ'' = (None :: real option)
   \<and> blend_common_score [''AA'' \<mapsto> 24] default_blend_common default_add_points ''ZZ'' 21 = 23
   \<and> blend_common_score [''AA'' \<mapsto> 24] default_blend_common default_add_points ''ZZ'' 22.5 = 27"
  using blend_skipped_without_common_score [of "[''AA'' \<mapsto> 24]" "''ZZ''" 0 0 21]
    blend_skipped_without_common_score [of "[''AA'' \<mapsto> 24]" "''ZZ''" 0 0 "22.5"]
    snap_decomposed [of 24 2 4] snap_decomposed [of "25.5" 2 "5.5"]
  by simp

section \<open>Properties of the prediction rows\<close>

lemma vsub_zero: "vsub v (Some 0) = v"
  by (cases v) simp_all

text \<open>
  C4, as the code has it. For a team present in the baseline table, each base statistic
  of its prediction row is, before the home-field adjustment, the team's baseline minus
  the opponent's baseline when the opponent is in the table, and the team's baseline
  itself only when the opponent is absent. Every column against the opponent is zero.
\<close>

theorem baseline_features_minus_opponent:
  assumes "e \<in> set (game_entries team_baselines games_recent row)"
    and "team_baselines (entry_team e) = Some b"
  shows "features e = home_field_advantage (is_home e)
           (\<lambda>c. vsub (b c) (case team_baselines (entry_opp e) of Some ob \<Rightarrow> ob c | None \<Rightarrow> Some 0))
    \<and> (team_baselines (entry_opp e) = None \<longrightarrow> features e = home_field_advantage (is_home e) b)
    \<and> (\<forall>c. features_vs_opp e c = Some 0)"
  using assms
  by (auto simp: game_entries_def make_entry_def base_feature_assignment_def vsub_zero)

theorem baseline_features_minus_opponent_witness:
  "make_entry ex_baselines [] ''2025_01_BB_AA'' ''AA'' ''BB'' True \<in> set (game_entries ex_baselines [] ex_game)
   \<and> ex_baselines ''AA'' = Some (const_stats 10)
   \<and> features (make_entry ex_baselines [] ''2025_01_BB_AA'' ''AA'' ''BB'' True) Yards = Some 6
   \<and> features (make_entry ex_baselines [] ''2025_01_BB_AA'' ''AA'' ''BB'' True) Total_epa = Some 8.5
   \<and> features_vs_opp (make_entry ex_baselines [] ''2025_01_BB_AA'' ''AA'' ''BB'' True) Yards = Some 0"
proof -
  let ?e = "make_entry ex_baselines [] ''2025_01_BB_AA'' ''AA'' ''BB'' True"
  have m: "?e \<in> set (game_entries ex_baselines [] ex_game)"
    by (simp add: game_entries_def ex_game_def)
  have b: "ex_baselines (entry_team ?e) = Some (const_stats 10)"
    by (simp add: make_entry_def ex_baselines_def)
  show ?thesis
    using baseline_features_minus_opponent [OF m b] m b
    by (simp add: make_entry_def base_feature_assignment_def ex_baselines_def const_stats_def
        home_field_advantage_def HOME_FIELD_ADV_def)
qed

text \<open>
  The claim as the specification states it fails: the away team BB has baseline 4 in
  every statistic, and its row holds 4 - 10 = -6, the opponent AA's baseline subtracted.
\<close>

theorem baseline_features_counterexample:
  "make_entry ex_baselines [] ''2025_01_BB_AA'' ''BB'' ''AA'' False \<in> set (game_entries ex_baselines [] ex_game)
   \<and> ex_baselines ''BB'' = Some (const_stats 4)
   \<and> features (make_entry ex_baselines [] ''2025_01_BB_AA'' ''BB'' ''AA'' False) Yards = Some (-6)
   \<and> features (make_entry ex_baselines [] ''2025_01_BB_AA'' ''BB'' ''AA'' False) Yards \<noteq> const_stats 4 Yards"
  by (simp add: game_entries_def ex_game_def make_entry_def base_feature_assignment_def
      ex_baselines_def const_stats_def home_field_advantage_def)

text \<open>
  C8. Of the two rows of a scheduled game, the away row is the base assignment unchanged,
  and the home row differs from its base assignment in the total EPA column only, where
  2.5 is added.
\<close>

theorem home_field_advantage_frame:
  assumes "game_entries team_baselines games_recent row = [h, a]"
  shows "is_home h \<and> \<not> is_home a
    \<and> entry_team h = sched_home_team row \<and> entry_team a = sched_away_team row
    \<and> features a = base_feature_assignment team_baselines games_recent (entry_team a) (entry_opp a)
    \<and> (\<forall>c. c \<noteq> Total_epa \<longrightarrow>
          features h c = base_feature_assignment team_baselines games_recent (entry_team h) (entry_opp h) c)
    \<and> features h Total_epa =
        vadd (base_feature_assignment team_baselines games_recent (entry_team h) (entry_opp h) Total_epa)
          (Some 2.5)
    \<and> features_vs_opp h = features_vs_opp a"
  using assms
  by (auto simp: game_entries_def make_entry_def home_field_advantage_def HOME_FIELD_ADV_def)

theorem home_field_advantage_frame_witness:
  "game_entries ex_baselines [] ex_game =
     [make_entry ex_baselines [] ''2025_01_BB_AA'' ''AA'' ''BB'' True,
      make_entry ex_baselines [] ''2025_01_BB_AA'' ''BB'' ''AA'' False]
   \<and> features (make_entry ex_baselines [] ''2025_01_BB_AA'' ''AA'' ''BB'' True) Total_epa = Some 8.5
   \<and> features (make_entry ex_baselines [] ''2025_01_BB_AA'' ''AA'' ''BB'' True) Yards = Some 6
   \<and> features (make_entry ex_baselines [] ''2025_01_BB_AA'' ''BB'' ''AA'' False) Total_epa = Some (-6)"
proof -
  have g: "game_entries ex_baselines [] ex_game =
     [make_entry ex_baselines [] ''2025_01_BB_AA'' ''AA'' ''BB'' True,
      make_entry ex_baselines [] ''2025_01_BB_AA'' ''BB'' ''AA'' False]"
    by (simp add: game_entries_def ex_game_def)
  have t: "entry_team (make_entry ex_baselines [] ''2025_01_BB_AA'' ''AA'' ''BB'' True) = ''AA''"
    "entry_opp (make_entry ex_baselines [] ''2025_01_BB_AA'' ''AA'' ''BB'' True) = ''BB''"
    "entry_team (make_entry ex_baselines [] ''2025_01_BB_AA'' ''BB'' ''AA'' False) = ''BB''"
    "entry_opp (make_entry ex_baselines [] ''2025_01_BB_AA'' ''BB'' ''AA'' False) = ''AA''"
    by (simp_all add: make_entry_def)
  have v: "base_feature_assignment ex_baselines [] ''AA'' ''BB'' = const_stats 6"
    "base_feature_assignment ex_baselines [] ''BB'' ''AA'' = const_stats (-6)"
    by (simp_all add: base_feature_assignment_def ex_baselines_def const_stats_def)
  note f = home_field_advantage_frame [OF g, unfolded t v const_stats_def]
  have "features (make_entry ex_baselines [] ''2025_01_BB_AA'' ''AA'' ''BB'' True) Total_epa = Some 8.5"
    using f by (simp add: ex_game_def)
  moreover have "features (make_entry ex_baselines [] ''2025_01_BB_AA'' ''AA'' ''BB'' True) Yards = Some 6"
    using f by (simp add: ex_game_def)
  moreover have "features (make_entry ex_baselines [] ''2025_01_BB_AA'' ''BB'' ''AA'' False) Total_epa = Some (-6)"
    using f by (simp add: ex_game_def)
  ultimately show ?thesis
    using g by blast
qed

section \<open>Properties of the projected winner\<close>

text \<open>
  C10. In the final table the projected winner is the home team when its predicted score
  is strictly greater than the away team's, and the away team otherwise, in particular
  when the two scores are equal.
\<close>

theorem projected_winner_strict:
  assumes "g \<in> set (final_preds pred_input)"
  shows "(home_pred_score g = away_pred_score g \<longrightarrow> projected_winner g = away_team g)
    \<and> (home_pred_score g > away_pred_score g \<longrightarrow> projected_winner g = home_team g)
    \<and> (\<not> home_pred_score g > away_pred_score g \<longrightarrow> projected_winner g = away_team g)
    \<and> (home_team g \<noteq> away_team g \<longrightarrow>
         (projected_winner g = home_team g \<longleftrightarrow> home_pred_score g > away_pred_score g))"
proof -
  obtain m where g: "g = game_pred.extend m (final_pred.fields
      (if home_pred_score m > away_pred_score m then home_team m else away_team m))"
    using assms by (auto simp: final_preds_def with_projected_winner_def)
  show ?thesis
    by (cases m) (simp add: g game_pred.defs final_pred.defs)
qed

theorem projected_winner_strict_witness:
  "ex_final \<in> set (final_preds ex_pred_input)
   \<and> home_pred_score ex_final = away_pred_score ex_final
   \<and> projected_winner ex_final = ''BB''"
proof -
  have m: "ex_final \<in> set (final_preds ex_pred_input)"
    by (simp add: final_preds_def with_projected_winner_def merge_home_away_def
        ex_pred_input_def ex_final_def game_pred.defs final_pred.defs)
  show ?thesis
    using projected_winner_strict [OF m] m by (simp add: ex_final_def)
qed

section \<open>Properties of the opponent adjustment\<close>

lemma remdups_all_same:
  "xs \<noteq> [] \<Longrightarrow> \<forall>x\<in>set xs. x = a \<Longrightarrow> remdups xs = [a]"
proof (induction xs)
  case Nil
  then show ?case by simp
next
  case (Cons x xs)
  then have x: "x = a" by simp
  show ?case
  proof (cases "xs = []")
    case True
    then show ?thesis using x by simp
  next
    case False
    then have "remdups xs = [a]" using Cons by simp
    moreover have "x \<in> set xs"
      using False Cons.prems(2) x by (cases xs) simp_all
    ultimately show ?thesis by simp
  qed
qed

lemma groupby_team_mean_Nil: "groupby_team_mean [] = []"
  by (simp add: groupby_team_mean_def)

lemma groupby_team_mean_one_team:
  assumes "rows \<noteq> []" and "\<forall>r\<in>set rows. team r = t"
  shows "groupby_team_mean rows = [(t, \<lambda>c. mean (map (\<lambda>r. stats r c) rows))]"
proof -
  have "remdups (map team rows) = [t]"
    using assms by (intro remdups_all_same) auto
  moreover have "filter (\<lambda>r. team r = t) rows = rows"
    using assms(2) by (simp add: filter_id_conv)
  ultimately show ?thesis
    by (simp add: groupby_team_mean_def)
qed

lemma vs_opp_prior:
  assumes "opp_rows df row \<noteq> []"
  shows "team_stats_vs_opp df row c =
         vsub (stats row c) (mean (map (\<lambda>r. stats r c) (opp_rows df row)))"
proof -
  have "\<forall>r\<in>set (opp_rows df row). team r = opp row"
    by (simp add: opp_rows_def)
  with assms have "groupby_team_mean (opp_rows df row) =
      [(opp row, \<lambda>c. mean (map (\<lambda>r. stats r c) (opp_rows df row)))]"
    by (rule groupby_team_mean_one_team)
  then show ?thesis
    by (simp add: team_stats_vs_opp_def)
qed

lemma vs_opp_fallback:
  assumes "opp_rows df row = []"
  shows "team_stats_vs_opp df row c = vsub (stats row c) (column_means df c)"
  using assms by (simp add: team_stats_vs_opp_def groupby_team_mean_Nil)

lemma adjusted_vs_opp:
  "i < length df \<Longrightarrow> vs_opp (add_matchup_adjusted_features df ! i) = team_stats_vs_opp df (df ! i)"
  by (simp add: add_matchup_adjusted_features_def merged_row.defs adjusted_row.defs)

lemma opp_rows_cong:
  assumes "filter (\<lambda>r. \<not> (team r = opp row \<and> season row \<le> season r)) df1 =
           filter (\<lambda>r. \<not> (team r = opp row \<and> season row \<le> season r)) df2"
  shows "opp_rows df1 row = opp_rows df2 row"
proof -
  let ?keep = "\<lambda>r. \<not> (team r = opp row \<and> season row \<le> season r)"
  let ?prior = "\<lambda>r. team r = opp row \<and> season r < season row"
  have split: "opp_rows df row = filter ?prior (filter ?keep df)" for df
    unfolding opp_rows_def filter_filter by (rule filter_cong) auto
  have "opp_rows df1 row = filter ?prior (filter ?keep df1)"
    by (rule split)
  also have "\<dots> = filter ?prior (filter ?keep df2)"
    by (simp only: assms)
  also have "\<dots> = opp_rows df2 row"
    by (rule split [symmetric])
  finally show ?thesis .
qed

lemma stats_mk_row: "stats (mk_row t o' s w v) c = Some v"
  by (simp add: mk_row_def const_stats_def)

lemma ex_hist_2: "ex_hist ! 2 = mk_row ''AA'' ''BB'' 2019 1 10"
  by (simp add: ex_hist_def)

lemma ex_hist_later_2: "ex_hist_later ! 2 = mk_row ''AA'' ''BB'' 2019 1 10"
  by (simp add: ex_hist_later_def ex_hist_def)

lemma ex_hist_prior:
  "filter (\<lambda>r. team r = opp (ex_hist ! 2) \<and> season r < season (ex_hist ! 2)) ex_hist =
     [mk_row ''BB'' ''CC'' 2018 1 20, mk_row ''BB'' ''CC'' 2018 2 30]"
  unfolding ex_hist_2 by (simp add: ex_hist_def mk_row_def)

lemma ex_first_season_0: "ex_first_season ! 0 = mk_row ''AA'' ''BB'' 2018 1 10"
  by (simp add: ex_first_season_def)

lemma ex_first_season_prior:
  "filter (\<lambda>r. team r = opp (ex_first_season ! 0) \<and> season r < season (ex_first_season ! 0))
     ex_first_season = []"
  unfolding ex_first_season_0 by (simp add: ex_first_season_def mk_row_def)

lemma mean_two: "mean [Some a, Some b] = Some ((a + b) / 2)"
  by (simp add: mean_def)

lemma mean_one: "mean [v] = v"
  by (cases v) (simp_all add: mean_def)

text \<open>
  C1, as the code has it. For a row of team T against opponent O in season S, when O has
  at least one row in a season before S, the opponent baseline of each statistic is the
  mean of that statistic over all of O's rows of earlier seasons (missing cells
  skipped), and the delta is the row's own statistic minus that mean.
\<close>

theorem opponent_baseline_is_prior_mean:
  assumes "i < length df"
    and "filter (\<lambda>r. team r = opp (df ! i) \<and> season r < season (df ! i)) df \<noteq> []"
  shows "vs_opp (add_matchup_adjusted_features df ! i) c =
         vsub (stats (df ! i) c)
           (mean (map (\<lambda>r. stats r c)
              (filter (\<lambda>r. team r = opp (df ! i) \<and> season r < season (df ! i)) df)))"
  using assms vs_opp_prior [of df "df ! i" c]
  by (simp add: adjusted_vs_opp opp_rows_def)

theorem opponent_baseline_is_prior_mean_witness:
  "2 < length ex_hist
   \<and> filter (\<lambda>r. team r = opp (ex_hist ! 2) \<and> season r < season (ex_hist ! 2)) ex_hist \<noteq> []
   \<and> vs_opp (add_matchup_adjusted_features ex_hist ! 2) Yards = Some (-15)"
proof -
  have l: "2 < length ex_hist"
    by (simp add: ex_hist_def)
  have n: "filter (\<lambda>r. team r = opp (ex_hist ! 2) \<and> season r < season (ex_hist ! 2)) ex_hist \<noteq> []"
    by (simp only: ex_hist_prior) simp
  have "vs_opp (add_matchup_adjusted_features ex_hist ! 2) Yards = Some (-15)"
    unfolding opponent_baseline_is_prior_mean [OF l n] ex_hist_prior
    by (simp add: ex_hist_2 stats_mk_row mean_two)
  with l n show ?thesis by (intro conjI)
qed

text \<open>
  The baseline is not the last earlier row: BB's rows of 2018 hold 20, then 30, and the row
  of AA against BB in 2019 holds 10. The delta is 10 - 25 = -15; the last row would give
  10 - 30 = -20.
\<close>

theorem opponent_baseline_last_row_counterexample:
  "filter (\<lambda>r. team r = opp (ex_hist ! 2) \<and> season r < season (ex_hist ! 2)) ex_hist
     = [mk_row ''BB'' ''CC'' 2018 1 20, mk_row ''BB'' ''CC'' 2018 2 30]
   \<and> vs_opp (add_matchup_adjusted_features ex_hist ! 2) Yards = Some (-15)
   \<and> vsub (stats (ex_hist ! 2) Yards)
        (stats (last (filter (\<lambda>r. team r = opp (ex_hist ! 2) \<and> season r < season (ex_hist ! 2)) ex_hist))
           Yards) = Some (-20)"
proof -
  have "vs_opp (add_matchup_adjusted_features ex_hist ! 2) Yards =
        team_stats_vs_opp ex_hist (ex_hist ! 2) Yards"
    by (subst adjusted_vs_opp) (simp_all add: ex_hist_def)
  also have "\<dots> = vsub (Some 10) (mean [Some 20, Some 30])"
    by (subst vs_opp_prior) (simp_all add: opp_rows_def ex_hist_prior, simp_all add: ex_hist_2 stats_mk_row)
  finally have v: "vs_opp (add_matchup_adjusted_features ex_hist ! 2) Yards = Some (-15)"
    by (simp add: mean_two)
  have "vsub (stats (ex_hist ! 2) Yards)
        (stats (last (filter (\<lambda>r. team r = opp (ex_hist ! 2) \<and> season r < season (ex_hist ! 2)) ex_hist))
           Yards) = Some (-20)"
    unfolding ex_hist_prior by (simp add: ex_hist_2 stats_mk_row)
  with v ex_hist_prior show ?thesis by (intro conjI)
qed

text \<open>
  C3. When the opponent has no row in an earlier season, the delta of each statistic is
  the row's own statistic minus the mean of that statistic over the whole frame.
\<close>

theorem fallback_is_dataset_mean:
  assumes "i < length df"
    and "filter (\<lambda>r. team r = opp (df ! i) \<and> season r < season (df ! i)) df = []"
  shows "vs_opp (add_matchup_adjusted_features df ! i) c =
         vsub (stats (df ! i) c) (mean (map (\<lambda>r. stats r c) df))"
  using assms vs_opp_fallback [of df "df ! i" c]
  by (simp add: adjusted_vs_opp opp_rows_def column_means_def)

theorem fallback_is_dataset_mean_witness:
  "0 < length ex_first_season
   \<and> filter (\<lambda>r. team r = opp (ex_first_season ! 0) \<and> season r < season (ex_first_season ! 0))
       ex_first_season = []
   \<and> vs_opp (add_matchup_adjusted_features ex_first_season ! 0) Yards = Some (-5)"
proof -
  have l: "0 < length ex_first_season"
    by (simp add: ex_first_season_def)
  have "vs_opp (add_matchup_adjusted_features ex_first_season ! 0) Yards = Some (-5)"
    unfolding fallback_is_dataset_mean [OF l ex_first_season_prior]
    by (simp add: ex_first_season_def stats_mk_row mean_two)
  with l ex_first_season_prior show ?thesis by (intro conjI)
qed

text \<open>
  C2, as the code has it. For a row whose opponent O has at least one row in an earlier
  season, two frames that differ only in rows of O of the same or a later season give
  the same delta.
\<close>

theorem delta_ignores_later_opponent_rows:
  assumes "i < length df1" and "j < length df2" and "df1 ! i = df2 ! j"
    and "filter (\<lambda>r. \<not> (team r = opp (df1 ! i) \<and> season (df1 ! i) \<le> season r)) df1 =
         filter (\<lambda>r. \<not> (team r = opp (df1 ! i) \<and> season (df1 ! i) \<le> season r)) df2"
    and "filter (\<lambda>r. team r = opp (df1 ! i) \<and> season r < season (df1 ! i)) df1 \<noteq> []"
  shows "vs_opp (add_matchup_adjusted_features df1 ! i) c =
         vs_opp (add_matchup_adjusted_features df2 ! j) c"
proof -
  have same: "opp_rows df1 (df1 ! i) = opp_rows df2 (df1 ! i)"
    using assms(4) by (rule opp_rows_cong)
  have ne: "opp_rows df1 (df1 ! i) \<noteq> []"
    using assms(5) by (simp add: opp_rows_def)
  have "team_stats_vs_opp df1 (df1 ! i) c = team_stats_vs_opp df2 (df1 ! i) c"
    using ne same by (simp add: vs_opp_prior)
  then show ?thesis
    using assms(1,2,3) by (simp add: adjusted_vs_opp)
qed

theorem delta_ignores_later_opponent_rows_witness:
  "2 < length ex_hist \<and> 2 < length ex_hist_later \<and> ex_hist ! 2 = ex_hist_later ! 2
   \<and> filter (\<lambda>r. \<not> (team r = opp (ex_hist ! 2) \<and> season (ex_hist ! 2) \<le> season r)) ex_hist =
     filter (\<lambda>r. \<not> (team r = opp (ex_hist ! 2) \<and> season (ex_hist ! 2) \<le> season r)) ex_hist_later
   \<and> ex_hist \<noteq> ex_hist_later
   \<and> vs_opp (add_matchup_adjusted_features ex_hist ! 2) Yards =
     vs_opp (add_matchup_adjusted_features ex_hist_later ! 2) Yards"
proof -
  have l: "2 < length ex_hist" "2 < length ex_hist_later"
    by (simp_all add: ex_hist_def ex_hist_later_def)
  have e: "ex_hist ! 2 = ex_hist_later ! 2"
    by (simp add: ex_hist_2 ex_hist_later_2)
  have k: "filter (\<lambda>r. \<not> (team r = opp (ex_hist ! 2) \<and> season (ex_hist ! 2) \<le> season r)) ex_hist =
     filter (\<lambda>r. \<not> (team r = opp (ex_hist ! 2) \<and> season (ex_hist ! 2) \<le> season r)) ex_hist_later"
    unfolding ex_hist_2 by (simp add: ex_hist_later_def ex_hist_def mk_row_def)
  have n: "filter (\<lambda>r. team r = opp (ex_hist ! 2) \<and> season r < season (ex_hist ! 2)) ex_hist \<noteq> []"
    by (simp only: ex_hist_prior) simp
  have d: "ex_hist \<noteq> ex_hist_later"
    by (simp add: ex_hist_later_def)
  show ?thesis
    using delta_ignores_later_opponent_rows [OF l e k n, of Yards] l e k d by (intro conjI)
qed

text \<open>
  Without an earlier row of the opponent the delta falls back on the mean of the whole
  frame, which the opponent's rows of the same season change: removing BB's row of 2018
  moves the delta of AA's row from -5 to 0.
\<close>

theorem delta_depends_on_later_rows_counterexample:
  "ex_first_season ! 0 = [mk_row ''AA'' ''BB'' 2018 1 10] ! 0
   \<and> filter (\<lambda>r. \<not> (team r = ''BB'' \<and> 2018 \<le> season r)) ex_first_season =
     filter (\<lambda>r. \<not> (team r = ''BB'' \<and> 2018 \<le> season r)) [mk_row ''AA'' ''BB'' 2018 1 10]
   \<and> vs_opp (add_matchup_adjusted_features ex_first_season ! 0) Yards = Some (-5)
   \<and> vs_opp (add_matchup_adjusted_features [mk_row ''AA'' ''BB'' 2018 1 10] ! 0) Yards = Some 0"
proof -
  have a: "ex_first_season ! 0 = [mk_row ''AA'' ''BB'' 2018 1 10] ! 0"
    by (simp add: ex_first_season_def)
  have k: "filter (\<lambda>r. \<not> (team r = ''BB'' \<and> 2018 \<le> season r)) ex_first_season =
     filter (\<lambda>r. \<not> (team r = ''BB'' \<and> 2018 \<le> season r)) [mk_row ''AA'' ''BB'' 2018 1 10]"
    by (simp add: ex_first_season_def mk_row_def)
  have p1: "opp_rows ex_first_season (mk_row ''AA'' ''BB'' 2018 1 10) = []"
    by (simp add: opp_rows_def ex_first_season_def mk_row_def)
  have p2: "opp_rows [mk_row ''AA'' ''BB'' 2018 1 10] (mk_row ''AA'' ''BB'' 2018 1 10) = []"
    by (simp add: opp_rows_def mk_row_def)
  have "vs_opp (add_matchup_adjusted_features ex_first_season ! 0) Yards =
        team_stats_vs_opp ex_first_season (mk_row ''AA'' ''BB'' 2018 1 10) Yards"
    by (subst adjusted_vs_opp) (simp_all add: ex_first_season_def)
  also have "\<dots> = Some (-5)"
    unfolding vs_opp_fallback [OF p1] column_means_def
    by (simp add: ex_first_season_def stats_mk_row mean_two)
  finally have v1: "vs_opp (add_matchup_adjusted_features ex_first_season ! 0) Yards = Some (-5)" .
  have "vs_opp (add_matchup_adjusted_features [mk_row ''AA'' ''BB'' 2018 1 10] ! 0) Yards =
        team_stats_vs_opp [mk_row ''AA'' ''BB'' 2018 1 10] (mk_row ''AA'' ''BB'' 2018 1 10) Yards"
    by (subst adjusted_vs_opp) simp_all
  also have "\<dots> = Some 0"
    unfolding vs_opp_fallback [OF p2] column_means_def
    by (simp add: stats_mk_row mean_one)
  finally have v2: "vs_opp (add_matchup_adjusted_features [mk_row ''AA'' ''BB'' 2018 1 10] ! 0) Yards = Some 0" .
  from a k v1 v2 show ?thesis by (intro conjI)
qed

section \<open>Properties of the rolling statistics\<close>

lemma base_feature_cols_all: "c \<in> set base_feature_cols"
  by (cases c) (simp_all add: base_feature_cols_def)

lemma rolling_mean_nth:
  assumes "i < length xs"
  shows "rolling_mean W (Suc 0) xs ! i = mean (drop (Suc i - W) (take (Suc i) xs))"
proof -
  have "mean w = None" if "present w = []" for w
    using that by (simp add: mean_def)
  then have "(if Suc 0 \<le> length (present w) then mean w else None) = mean w" for w
    by (cases "present w") simp_all
  then show ?thesis
    using assms by (simp add: rolling_mean_def Let_def)
qed

lemma length_rolling_cols: "length (rolling_cols W g) = length g"
  by (simp add: rolling_cols_def)

lemma rolling_cols_nth:
  assumes "i < length g"
  shows "rolling_cols W g ! i =
    (g ! i)\<lparr>stats := \<lambda>c. mean (map (\<lambda>r. stats r c) (drop (Suc i - W) (take (Suc i) g)))\<rparr>"
  using assms
  by (simp add: rolling_cols_def base_feature_cols_all rolling_mean_nth drop_map take_map)

lemma window_single:
  assumes "i < length g"
  shows "drop i (take (Suc i) g) = [g ! i]"
  using assms by (simp add: take_Suc_conv_app_nth)

lemma window_recent:
  "drop (Suc i - W) (take (Suc i) g) = drop (Suc i - min (Suc i) W) (take (Suc i) g)"
  by (cases "W \<le> Suc i") (simp_all add: min_def)

lemma rolling_cols_window_1: "rolling_cols 1 g = g"
proof (rule nth_equalityI)
  show "length (rolling_cols 1 g) = length g"
    by (rule length_rolling_cols)
next
  fix i assume "i < length (rolling_cols 1 g)"
  then have i: "i < length g"
    by (simp add: length_rolling_cols)
  show "rolling_cols 1 g ! i = g ! i"
    by (simp add: rolling_cols_nth [OF i] window_single [OF i] mean_one)
qed

lemma rolling_cols_trailing_mean:
  assumes "i < length team_df"
  shows "stats (rolling_cols W team_df ! i) c =
           mean (map (\<lambda>r. stats r c) (drop (Suc i - min (Suc i) W) (take (Suc i) team_df)))
    \<and> length (drop (Suc i - min (Suc i) W) (take (Suc i) team_df)) = min (Suc i) W
    \<and> (1 \<le> W \<longrightarrow> stats (rolling_cols W team_df ! 0) c = stats (team_df ! 0) c)
    \<and> rolling_cols 1 team_df = team_df"
proof -
  have a: "stats (rolling_cols W team_df ! i) c =
           mean (map (\<lambda>r. stats r c) (drop (Suc i - min (Suc i) W) (take (Suc i) team_df)))"
    by (simp add: rolling_cols_nth [OF assms] window_recent [symmetric])
  have b: "length (drop (Suc i - min (Suc i) W) (take (Suc i) team_df)) = min (Suc i) W"
    using assms by (auto simp: min_def)
  have z: "0 < length team_df"
    using assms by (cases team_df) simp_all
  have c: "stats (rolling_cols W team_df ! 0) c = stats (team_df ! 0) c" if "1 \<le> W"
  proof -
    have "Suc 0 - W = 0" using that by simp
    then show ?thesis
      using window_single [OF z] by (simp add: rolling_cols_nth [OF z] mean_one)
  qed
  show ?thesis
    using a b c rolling_cols_window_1 by simp
qed


lemma set_unique: "set (unique xs) = set xs"
  by (induction xs rule: unique.induct) auto

lemma distinct_unique: "distinct (unique xs)"
  by (induction xs rule: unique.induct) (auto simp: set_unique)

lemma map_team_rolling_cols: "map team (rolling_cols W g) = map team g"
  by (rule nth_equalityI) (simp_all add: length_rolling_cols rolling_cols_nth)

lemma filter_one_team:
  assumes "\<forall>r\<in>set ys. team r = t'"
  shows "filter (\<lambda>r. team r = t) ys = (if t' = t then ys else [])"
  using assms by (induction ys) auto

lemma concat_pick:
  assumes "distinct ts"
  shows "concat (map (\<lambda>t'. if t' = t then f t' else []) ts) = (if t \<in> set ts then f t else [])"
  using assms by (induction ts) auto

lemma team_of_rolled_group:
  "\<forall>r\<in>set (rolling_cols W (filter (\<lambda>r. team r = t') xs)). team r = t'"
proof -
  have "set (map team (rolling_cols W (filter (\<lambda>r. team r = t') xs))) \<subseteq> {t'}"
    unfolding map_team_rolling_cols by auto
  then show ?thesis by auto
qed

lemma rolling_cols_Nil: "rolling_cols W [] = []"
  by (simp add: rolling_cols_def)

lemma filter_team_concat_groups:
  assumes "distinct ts" and "set ts = team ` set xs"
  shows "filter (\<lambda>r. team r = t)
           (concat (map (\<lambda>t'. rolling_cols W (filter (\<lambda>r. team r = t') xs)) ts)) =
         rolling_cols W (filter (\<lambda>r. team r = t) xs)"
proof -
  have "filter (\<lambda>r. team r = t)
           (concat (map (\<lambda>t'. rolling_cols W (filter (\<lambda>r. team r = t') xs)) ts)) =
        concat (map (\<lambda>t'. if t' = t then rolling_cols W (filter (\<lambda>r. team r = t') xs) else []) ts)"
    by (simp add: filter_concat comp_def filter_one_team [OF team_of_rolled_group])
  also have "\<dots> = (if t \<in> set ts then rolling_cols W (filter (\<lambda>r. team r = t) xs) else [])"
    using assms(1) by (rule concat_pick)
  also have "\<dots> = rolling_cols W (filter (\<lambda>r. team r = t) xs)"
  proof (cases "t \<in> set ts")
    case True
    then show ?thesis by simp
  next
    case False
    then have "filter (\<lambda>r. team r = t) xs = []"
      using assms(2) by (auto simp: filter_empty_conv)
    with False show ?thesis by (simp add: rolling_cols_Nil)
  qed
  finally show ?thesis .
qed

lemma compute_rolling_per_team:
  assumes "compute_rolling_team_stats df n_seasons = Inr out"
  shows "filter (\<lambda>r. team r = t) out =
         rolling_cols (nat (n_seasons * 17)) (filter (\<lambda>r. team r = t) (sort_values df))"
    and "1 \<le> nat (n_seasons * 17)"
proof -
  let ?ts = "unique (map team (sort_values df))"
  have out: "out = concat (map (\<lambda>t'. rolling_cols (nat (n_seasons * 17))
                 (filter (\<lambda>r. team r = t') (sort_values df))) ?ts)"
    and w: "\<not> n_seasons * 17 < 1"
    using assms by (auto simp: compute_rolling_team_stats_def Let_def split: if_splits)
  have "set ?ts = team ` set (sort_values df)"
    by (simp add: set_unique)
  with distinct_unique [of "map team (sort_values df)"]
  show "filter (\<lambda>r. team r = t) out =
         rolling_cols (nat (n_seasons * 17)) (filter (\<lambda>r. team r = t) (sort_values df))"
    unfolding out by (rule filter_team_concat_groups)
  show "1 \<le> nat (n_seasons * 17)"
    using w by simp
qed

lemma chronological_within_team:
  assumes "sorted (map (\<lambda>r. (team r, season r, week r)) xs)" and "\<forall>r\<in>set xs. team r = t"
  shows "sorted (map (\<lambda>r. (season r, week r)) xs)"
  using assms by (induction xs) auto

lemma team_games_chronological:
  "sorted (map (\<lambda>r. (season r, week r)) (filter (\<lambda>r. team r = t) (sort_values df)))"
proof (rule chronological_within_team)
  show "sorted (map (\<lambda>r. (team r, season r, week r)) (filter (\<lambda>r. team r = t) (sort_values df)))"
    unfolding sort_values_def by (rule sorted_filter) simp
  show "\<forall>r\<in>set (filter (\<lambda>r. team r = t) (sort_values df)). team r = t"
    by simp
qed

lemma ex_games_sorted:
  "sort_values ex_games = [mk_row ''AA'' ''BB'' 2018 1 10, mk_row ''AA'' ''CC'' 2018 2 20,
                           mk_row ''BB'' ''CC'' 2018 1 5]"
  by (simp add: sort_values_def ex_games_def mk_row_def)


lemma ex_unique: "unique [''AA'', ''AA'', ''BB''] = [''AA'', ''BB'']"
  by simp

lemma upt_2: "[0..<2] = [0, Suc 0]"
  by (simp add: numeral_2_eq_2)

lemma mk_row_stats_upd: "(mk_row t o' s w v)\<lparr>stats := const_stats v'\<rparr> = mk_row t o' s w v'"
  by (simp add: mk_row_def)

lemma ex_roll_AA:
  "rolling_cols 34 [mk_row ''AA'' ''BB'' 2018 1 10, mk_row ''AA'' ''CC'' 2018 2 20] =
     [mk_row ''AA'' ''BB'' 2018 1 10, mk_row ''AA'' ''CC'' 2018 2 15]"
proof -
  have "(\<lambda>c. mean [Some 10, Some 20]) = const_stats 15"
    by (simp add: const_stats_def mean_two)
  moreover have "(\<lambda>c. mean [Some (10::real)]) = const_stats 10"
    by (simp add: const_stats_def mean_one)
  ultimately show ?thesis
    by (simp add: rolling_cols_def upt_2 base_feature_cols_all rolling_mean_def stats_mk_row
        mk_row_stats_upd)
qed

lemma ex_roll_BB:
  "rolling_cols 34 [mk_row ''BB'' ''CC'' 2018 1 5] = [mk_row ''BB'' ''CC'' 2018 1 5]"
proof -
  have "(\<lambda>c. mean [Some (5::real)]) = const_stats 5"
    by (simp add: const_stats_def mean_one)
  then show ?thesis
    by (simp add: rolling_cols_def base_feature_cols_all rolling_mean_def stats_mk_row
        mk_row_stats_upd)
qed

lemma ex_games_rolled: "compute_rolling_team_stats ex_games 2 = Inr ex_rolled"
proof -
  have t: "map team (sort_values ex_games) = [''AA'', ''AA'', ''BB'']"
    by (simp add: ex_games_sorted mk_row_def)
  have a: "filter (\<lambda>r. team r = ''AA'') (sort_values ex_games) =
      [mk_row ''AA'' ''BB'' 2018 1 10, mk_row ''AA'' ''CC'' 2018 2 20]"
    by (simp add: ex_games_sorted) (simp add: mk_row_def)
  have b: "filter (\<lambda>r. team r = ''BB'') (sort_values ex_games) = [mk_row ''BB'' ''CC'' 2018 1 5]"
    by (simp add: ex_games_sorted) (simp add: mk_row_def)
  show ?thesis
    by (simp add: compute_rolling_team_stats_def t ex_unique a b ex_roll_AA ex_roll_BB ex_rolled_def)
qed


lemma ex_games_AA:
  "filter (\<lambda>r. team r = ''AA'') (sort_values ex_games) =
      [mk_row ''AA'' ''BB'' 2018 1 10, mk_row ''AA'' ''CC'' 2018 2 20]"
  by (simp add: ex_games_sorted) (simp add: mk_row_def)

text \<open>
  C7. In the output of \<^verbatim>\<open>compute_rolling_team_stats\<close>, the rows of a team are the
  team's games in the order of season and week, each statistic replaced by its rolling
  mean: at position \<open>i\<close> the mean of the most recent \<open>min (i + 1) W\<close> raw values, the
  current one included. The first game keeps its raw value, and with a window of one
  game the rolling step changes nothing.
\<close>

theorem rolling_is_trailing_mean:
  assumes "compute_rolling_team_stats df n_seasons = Inr out"
    and "i < length games"
    and games_def: "games = filter (\<lambda>r. team r = t) (sort_values df)"
    and W_def: "W = nat (n_seasons * 17)"
  shows "filter (\<lambda>r. team r = t) out = rolling_cols W games
    \<and> sorted (map (\<lambda>r. (season r, week r)) games)
    \<and> stats (filter (\<lambda>r. team r = t) out ! i) c =
        mean (map (\<lambda>r. stats r c) (drop (Suc i - min (Suc i) W) (take (Suc i) games)))
    \<and> length (drop (Suc i - min (Suc i) W) (take (Suc i) games)) = min (Suc i) W
    \<and> stats (filter (\<lambda>r. team r = t) out ! 0) c = stats (games ! 0) c
    \<and> rolling_cols 1 team_df = team_df"
proof -
  have rolled: "filter (\<lambda>r. team r = t) out = rolling_cols W games"
    and w: "1 \<le> W"
    unfolding games_def W_def using assms(1) by (rule compute_rolling_per_team)+
  have chrono: "sorted (map (\<lambda>r. (season r, week r)) games)"
    unfolding games_def by (rule team_games_chronological)
  note m = rolling_cols_trailing_mean [OF assms(2), of W c]
  have first: "stats (rolling_cols W games ! 0) c = stats (games ! 0) c"
    using m w by simp
  show ?thesis
    unfolding rolled using chrono m first rolling_cols_window_1 by simp
qed

theorem rolling_is_trailing_mean_witness:
  "compute_rolling_team_stats ex_games 2 = Inr ex_rolled
   \<and> 1 < length (filter (\<lambda>r. team r = ''AA'') (sort_values ex_games))
   \<and> stats (filter (\<lambda>r. team r = ''AA'') ex_rolled ! 1) Yards = Some 15
   \<and> stats (filter (\<lambda>r. team r = ''AA'') ex_rolled ! 0) Yards = Some 10"
proof -
  have l: "1 < length (filter (\<lambda>r. team r = ''AA'') (sort_values ex_games))"
    by (simp add: ex_games_AA)
  note r = rolling_is_trailing_mean [OF ex_games_rolled l refl refl, of Yards, unfolded ex_games_AA]
  note r3 = r [THEN conjunct2, THEN conjunct2, THEN conjunct1]
  note r5 = r [THEN conjunct2, THEN conjunct2, THEN conjunct2, THEN conjunct2, THEN conjunct1]
  have "stats (filter (\<lambda>r. team r = ''AA'') ex_rolled ! 1) Yards = Some 15"
    unfolding r3 by (simp add: stats_mk_row mean_two)
  moreover have "stats (filter (\<lambda>r. team r = ''AA'') ex_rolled ! 0) Yards = Some 10"
    unfolding r5 by (simp add: stats_mk_row)
  ultimately show ?thesis
    using ex_games_rolled l by simp
qed

section \<open>Properties of the game aggregator\<close>

lemma game_id_group_row: "game_id (group_row k ps) = fst k"
  by (cases k) (simp add: group_row_def)

lemma teams_group_row:
  "posteam (group_row (g, s, w, a, b) ps) = a" "defteam (group_row (g, s, w, a, b) ps) = b"
  by (simp_all add: group_row_def)

lemma rows_of_game:
  "filter (\<lambda>r. game_id r = g) (build_game_level_df pbp) =
   map (\<lambda>k. group_row k (filter (\<lambda>p. key_of p = Some k) (dropna_teams pbp)))
     (filter (\<lambda>k. fst k = g) (group_keys (dropna_teams pbp)))"
  by (simp add: build_game_level_df_def Let_def filter_map comp_def game_id_group_row)

lemma distinct_group_keys: "distinct (group_keys df)"
  by (simp add: group_keys_def)

lemma set_group_keys: "set (group_keys df) = set (List.map_filter key_of df)"
  by (simp add: group_keys_def)

lemma two_element_list:
  assumes "distinct ks" and "set ks = {k1, k2}" and "k1 \<noteq> k2"
  shows "ks = [k1, k2] \<or> ks = [k2, k1]"
proof -
  have "length ks = 2"
    using assms by (simp add: distinct_card [symmetric])
  then obtain x y where ks: "ks = [x, y]"
    by (cases ks; cases "tl ks") auto
  have "x \<in> {k1, k2}" "y \<in> {k1, k2}" "x \<noteq> y"
    using assms(1,2) unfolding ks by auto
  then show ?thesis
    unfolding ks by auto
qed

text \<open>
  C9, as the code has it. For a game id \<open>g\<close>, the output of the aggregator holds one row
  per distinct key (season, week, offense, defense) among the plays of \<open>g\<close> that name
  both teams. When these plays have exactly the two keys \<open>(s, w, a, b)\<close> and
  \<open>(s, w, b, a)\<close> with \<open>a \<noteq> b\<close>, that is when each of the two teams has a play on
  offense, the game has exactly two rows and each row's team is the other row's opponent.
\<close>

theorem game_rows_follow_play_keys:
  "length (filter (\<lambda>r. game_id r = g) (build_game_level_df pbp)) =
     card {k \<in> set (List.map_filter key_of (dropna_teams pbp)). fst k = g}
   \<and> ({k \<in> set (List.map_filter key_of (dropna_teams pbp)). fst k = g} =
         {(g, s, w, a, b), (g, s, w, b, a)} \<and> a \<noteq> b \<longrightarrow>
       (\<exists>r1 r2. filter (\<lambda>r. game_id r = g) (build_game_level_df pbp) = [r1, r2]
          \<and> posteam r1 = defteam r2 \<and> defteam r1 = posteam r2))"
proof -
  let ?ks = "filter (\<lambda>k. fst k = g) (group_keys (dropna_teams pbp))"
  let ?K = "{k \<in> set (List.map_filter key_of (dropna_teams pbp)). fst k = g}"
  have d: "distinct ?ks"
    by (simp add: distinct_group_keys)
  have s: "set ?ks = ?K"
    by (auto simp: set_group_keys)
  have "length ?ks = card (set ?ks)"
    using d by (rule distinct_card [symmetric])
  then have count: "length (filter (\<lambda>r. game_id r = g) (build_game_level_df pbp)) = card ?K"
    unfolding rows_of_game s by simp
  have two: "\<exists>r1 r2. filter (\<lambda>r. game_id r = g) (build_game_level_df pbp) = [r1, r2]
          \<and> posteam r1 = defteam r2 \<and> defteam r1 = posteam r2"
    if K: "?K = {(g, s, w, a, b), (g, s, w, b, a)}" and ab: "a \<noteq> b"
  proof -
    have "set ?ks = {(g, s, w, a, b), (g, s, w, b, a)}"
      using s K by simp
    moreover have "(g, s, w, a, b) \<noteq> (g, s, w, b, a)"
      using ab by simp
    ultimately have "?ks = [(g, s, w, a, b), (g, s, w, b, a)] \<or> ?ks = [(g, s, w, b, a), (g, s, w, a, b)]"
      using d by (intro two_element_list)
    then show ?thesis
      unfolding rows_of_game by (auto simp: teams_group_row)
  qed
  show ?thesis
    using count two by blast
qed


lemma key_of_mk_play: "key_of (mk_play g s w a b e) = Some (g, s, w, a, b)"
  by (simp add: key_of_def mk_play_def)

lemma ex_plays_dropna: "dropna_teams ex_plays = ex_plays"
  by (simp add: dropna_teams_def ex_plays_def mk_play_def)

lemma ex_plays_keys:
  "List.map_filter key_of (dropna_teams ex_plays) =
     [(''2023_01_BB_AA'', 2023, 1, ''AA'', ''BB''), (''2023_01_BB_AA'', 2023, 1, ''BB'', ''AA''),
      (''2023_01_BB_AA'', 2023, 1, ''AA'', ''BB'')]"
  unfolding ex_plays_dropna by (simp add: ex_plays_def List.map_filter_simps key_of_mk_play)

lemma ex_plays_game_keys:
  "{k \<in> set (List.map_filter key_of (dropna_teams ex_plays)). fst k = ''2023_01_BB_AA''} =
     {(''2023_01_BB_AA'', 2023, 1, ''AA'', ''BB''), (''2023_01_BB_AA'', 2023, 1, ''BB'', ''AA'')}"
  unfolding ex_plays_keys by auto

theorem game_rows_follow_play_keys_witness:
  "{k \<in> set (List.map_filter key_of (dropna_teams ex_plays)). fst k = ''2023_01_BB_AA''} =
     {(''2023_01_BB_AA'', 2023, 1, ''AA'', ''BB''), (''2023_01_BB_AA'', 2023, 1, ''BB'', ''AA'')}
   \<and> length (filter (\<lambda>r. game_id r = ''2023_01_BB_AA'') (build_game_level_df ex_plays)) = 2
   \<and> (\<exists>r1 r2. filter (\<lambda>r. game_id r = ''2023_01_BB_AA'') (build_game_level_df ex_plays) = [r1, r2]
          \<and> posteam r1 = defteam r2 \<and> defteam r1 = posteam r2)"
proof -
  note t = game_rows_follow_play_keys [of "''2023_01_BB_AA''" ex_plays 2023 1 "''AA''" "''BB''"]
  have "card {(''2023_01_BB_AA'', 2023::int, 1::int, ''AA'', ''BB''),
              (''2023_01_BB_AA'', 2023, 1, ''BB'', ''AA'')} = 2"
    by simp
  then have "length (filter (\<lambda>r. game_id r = ''2023_01_BB_AA'') (build_game_level_df ex_plays)) = 2"
    using t [THEN conjunct1] unfolding ex_plays_game_keys by simp
  moreover have "\<exists>r1 r2. filter (\<lambda>r. game_id r = ''2023_01_BB_AA'') (build_game_level_df ex_plays) = [r1, r2]
          \<and> posteam r1 = defteam r2 \<and> defteam r1 = posteam r2"
    using t [THEN conjunct2] ex_plays_game_keys by simp
  ultimately show ?thesis
    using ex_plays_game_keys by simp
qed

lemma ex_one_side_dropna:
  "dropna_teams ex_plays_one_side = [mk_play ''2023_01_BB_AA'' 2023 1 ''AA'' ''BB'' 0.5]"
  by (simp add: dropna_teams_def ex_plays_one_side_def mk_play_def)

text \<open>
  Nothing in the aggregator makes the rows of a game two. A game of which only the plays
  of AA on offense name both teams has the single row of AA against BB.
\<close>

theorem one_row_game_counterexample:
  "map (\<lambda>r. (game_id r, posteam r, defteam r)) (build_game_level_df ex_plays_one_side) =
     [(''2023_01_BB_AA'', ''AA'', ''BB'')]
   \<and> length (filter (\<lambda>r. game_id r = ''2023_01_BB_AA'') (build_game_level_df ex_plays_one_side)) = 1"
proof -
  have k: "group_keys [mk_play ''2023_01_BB_AA'' 2023 1 ''AA'' ''BB'' 0.5] =
      [(''2023_01_BB_AA'', 2023, 1, ''AA'', ''BB'')]"
    by (simp add: group_keys_def List.map_filter_simps key_of_mk_play)
  have "build_game_level_df ex_plays_one_side =
      [group_row (''2023_01_BB_AA'', 2023, 1, ''AA'', ''BB'')
         [mk_play ''2023_01_BB_AA'' 2023 1 ''AA'' ''BB'' 0.5]]"
    unfolding build_game_level_df_def ex_one_side_dropna Let_def k
    by (simp add: key_of_mk_play)
  then show ?thesis
    by (simp add: group_row_def)
qed

end
